theory Spec2Isabelle
  imports Main "HOL-Library.Char_ord" "HOL-Library.List_Lexorder"
begin

section \<open>The relation engine of \<^verbatim>\<open>parse_blat-output.py\<close>\<close>

text \<open>
  The function \<^verbatim>\<open>process_psl_file\<close> reads a PSL file into a pandas data frame of 21
  string columns, converts the column \<^verbatim>\<open>blockCount\<close> with \<^verbatim>\<open>astype(int)\<close>, and
  writes five CSV reports computed from the columns \<^verbatim>\<open>qName\<close> (the probe) and
  \<^verbatim>\<open>tName\<close> (the target). This theory embeds the function from the data frame on:
  a frame is the list of its rows, and a row carries the three columns the function
  consumes, as the text the tab split produced, and the eighteen others in \<open>rest\<close>.
  Strings are lists of characters read as code points below 256; Python compares strings
  code point by code point, which is the lexicographic order on lists over the order
  of characters.

  What comes before the frame exists is left out: reading the file, dropping its five
  header lines, splitting at tabs, creating the output directory. So are the frames the
  constructor refuses (the widest row has not 21 cells) and rows too short to have a
  \<^verbatim>\<open>blockCount\<close> cell, on which the conversion raises as it does on text that is not
  an integer.
\<close>

subsection \<open>Rows of the data frame\<close>

record psl_row =
  qName :: string
  tName :: string
  blockCount :: string
  rest :: "string list"

type_synonym frame = "psl_row list"

subsection \<open>Conversion of a cell to an integer\<close>

text \<open>
  \<^verbatim>\<open>astype(int)\<close> on a column of Python strings converts each cell as \<^verbatim>\<open>int(s)\<close>
  does and stores the value as a signed 64-bit integer. \<^verbatim>\<open>int(s)\<close> skips white space
  on both sides, reads an optional sign and then decimal digits, where single
  underscores may stand between digits; anything else raises \<^verbatim>\<open>ValueError\<close>. A value
  outside the 64-bit range raises \<^verbatim>\<open>OverflowError\<close>. The interpreter's configurable cap
  on the number of digits of a literal is not part of the model.
\<close>

datatype error = ValueError | OverflowError

definition is_space :: "char \<Rightarrow> bool" where
  "is_space c = (of_char c \<in> {9, 10, 11, 12, 13, 32, 133, 160 :: nat})"

definition is_digit :: "char \<Rightarrow> bool" where
  "is_digit c = (48 \<le> (of_char c :: nat) \<and> (of_char c :: nat) \<le> 57)"

definition digit_val :: "char \<Rightarrow> int" where
  "digit_val c = int (of_char c) - 48"

definition strip_space :: "string \<Rightarrow> string" where
  "strip_space s = rev (dropWhile is_space (rev (dropWhile is_space s)))"

fun digits :: "int \<Rightarrow> string \<Rightarrow> int option" where
  "digits acc [] = Some acc"
| "digits acc (c # cs) =
     (if is_digit c then digits (10 * acc + digit_val c) cs
      else if c = CHR ''_'' then
        (case cs of
           [] \<Rightarrow> None
         | d # ds \<Rightarrow> if is_digit d then digits (10 * acc + digit_val d) ds else None)
      else None)"

definition unsigned :: "string \<Rightarrow> int option" where
  "unsigned s =
     (case s of
        [] \<Rightarrow> None
      | c # cs \<Rightarrow> if is_digit c then digits (digit_val c) cs else None)"

definition py_int :: "string \<Rightarrow> int option" where
  "py_int s =
     (case strip_space s of
        [] \<Rightarrow> None
      | c # cs \<Rightarrow>
          if c = CHR ''-'' then map_option uminus (unsigned cs)
          else if c = CHR ''+'' then unsigned cs
          else unsigned (c # cs))"

definition in_int64 :: "int \<Rightarrow> bool" where
  "in_int64 n = (- (2 ^ 63) \<le> n \<and> n < 2 ^ 63)"

fun astype_int :: "string list \<Rightarrow> error + int list" where
  "astype_int [] = Inr []"
| "astype_int (s # ss) =
     (case py_int s of
        None \<Rightarrow> Inl ValueError
      | Some n \<Rightarrow>
          if in_int64 n then
            (case astype_int ss of Inl e \<Rightarrow> Inl e | Inr ns \<Rightarrow> Inr (n # ns))
          else Inl OverflowError)"

subsection \<open>Grouping and the five reports\<close>

text \<open>
  \<^verbatim>\<open>Series.unique()\<close> keeps the values in the order of their first appearance.
  \<^verbatim>\<open>df.groupby(key)[col]\<close> has one group for each distinct key, the groups ordered
  by key, and a group holds the \<open>col\<close> cells of the rows with that key, in row order.
\<close>

definition unique :: "'a list \<Rightarrow> 'a list" where
  "unique xs = rev (remdups (rev xs))"

definition nunique :: "'a list \<Rightarrow> nat" where
  "nunique xs = length (unique xs)"

definition groupby ::
  "(psl_row \<Rightarrow> string) \<Rightarrow> (psl_row \<Rightarrow> string) \<Rightarrow> frame \<Rightarrow> (string \<times> string list) list" where
  "groupby key col df =
     map (\<lambda>k. (k, map col (filter (\<lambda>r. key r = k) df))) (sort (unique (map key df)))"

fun join :: "string \<Rightarrow> string list \<Rightarrow> string" where
  "join sep [] = []"
| "join sep [x] = x"
| "join sep (x # y # ys) = x @ sep @ join sep (y # ys)"

definition target_counts :: "frame \<Rightarrow> (string \<times> nat) list" where
  "target_counts df = map (\<lambda>(k, x). (k, nunique x)) (groupby tName qName df)"

definition probe_counts :: "frame \<Rightarrow> (string \<times> nat) list" where
  "probe_counts df = map (\<lambda>(k, x). (k, nunique x)) (groupby qName tName df)"

definition probe_hits :: "frame \<Rightarrow> (string \<times> string) list" where
  "probe_hits df =
     map (\<lambda>(k, x). (k, join '', '' (sorted_list_of_set (set x)))) (groupby qName tName df)"

definition target_hits :: "frame \<Rightarrow> (string \<times> string) list" where
  "target_hits df =
     map (\<lambda>(k, x). (k, join '', '' (sorted_list_of_set (set x)))) (groupby tName qName df)"

definition probes_hitting_all_targets :: "frame \<Rightarrow> string list" where
  "probes_hitting_all_targets df =
     (let all_targets = set (unique (map tName df));
          probe_target_groups = map (\<lambda>(k, x). (k, set x)) (groupby qName tName df)
      in map fst (filter (\<lambda>(k, x). x = all_targets) probe_target_groups))"

subsection \<open>The output directory and the whole function\<close>

text \<open>
  The output directory is a map from file names to tables; \<^verbatim>\<open>to_csv\<close> stores a table
  under its name, replacing what was there. A table is the list of its data rows (the
  header line is fixed text). The conversion of \<open>blockCount\<close> comes before the first
  \<^verbatim>\<open>to_csv\<close>: when it raises, the function ends there and the directory is as it was.
\<close>

datatype table =
  Counts "(string \<times> nat) list"
| Hits "(string \<times> string) list"
| Names "string list"

type_synonym outdir = "string \<rightharpoonup> table"

definition to_csv :: "table \<Rightarrow> string \<Rightarrow> outdir \<Rightarrow> outdir" where
  "to_csv t name out = out(name \<mapsto> t)"

definition write_reports :: "frame \<Rightarrow> outdir \<Rightarrow> outdir" where
  "write_reports df out =
     (let out1 = to_csv (Counts (target_counts df)) ''Unique_Target_Counts.csv'' out;
          out2 = to_csv (Counts (probe_counts df)) ''Unique_Probe_Counts.csv'' out1;
          out3 = to_csv (Hits (probe_hits df)) ''Probe_to_Target_Hits.csv'' out2;
          out4 = to_csv (Hits (target_hits df)) ''Target_to_Probe_Hits.csv'' out3
      in to_csv (Names (probes_hitting_all_targets df)) ''Probes_Hitting_All_Targets.csv'' out4)"

definition process_psl_file :: "frame \<Rightarrow> outdir \<Rightarrow> outdir \<times> error option" where
  "process_psl_file df out =
     (case astype_int (map blockCount df) of
        Inl e \<Rightarrow> (out, Some e)
      | Inr block_counts \<Rightarrow> (write_reports df out, None))"

subsection \<open>The same function with the iteration order of Python sets made explicit\<close>

text \<open>
  A Python \<^verbatim>\<open>set\<close> of strings is iterated in an order that the language leaves open and
  that changes from one interpreter run to the next (string hashes are salted). In the
  definitions above a Python set is a HOL set, which has no order at all. Here a run
  carries its iteration order as a parameter: \<open>it x\<close> lists the members of
  \<^verbatim>\<open>set(x)\<close> in the order this run iterates them. \<^verbatim>\<open>sorted\<close> iterates its argument;
  \<^verbatim>\<open>==\<close> on two sets compares their members.
\<close>

definition iteration_order :: "(string list \<Rightarrow> string list) \<Rightarrow> bool" where
  "iteration_order it = (\<forall>x. set (it x) = set x \<and> distinct (it x))"

definition probe_hits_run :: "(string list \<Rightarrow> string list) \<Rightarrow> frame \<Rightarrow> (string \<times> string) list" where
  "probe_hits_run it df =
     map (\<lambda>(k, x). (k, join '', '' (sort (it x)))) (groupby qName tName df)"

definition target_hits_run :: "(string list \<Rightarrow> string list) \<Rightarrow> frame \<Rightarrow> (string \<times> string) list" where
  "target_hits_run it df =
     map (\<lambda>(k, x). (k, join '', '' (sort (it x)))) (groupby tName qName df)"

definition probes_hitting_all_targets_run ::
  "(string list \<Rightarrow> string list) \<Rightarrow> frame \<Rightarrow> string list" where
  "probes_hitting_all_targets_run it df =
     (let all_targets = it (unique (map tName df));
          probe_target_groups = map (\<lambda>(k, x). (k, it x)) (groupby qName tName df)
      in map fst (filter (\<lambda>(k, x). set x = set all_targets) probe_target_groups))"

definition write_reports_run :: "(string list \<Rightarrow> string list) \<Rightarrow> frame \<Rightarrow> outdir \<Rightarrow> outdir" where
  "write_reports_run it df out =
     (let out1 = to_csv (Counts (target_counts df)) ''Unique_Target_Counts.csv'' out;
          out2 = to_csv (Counts (probe_counts df)) ''Unique_Probe_Counts.csv'' out1;
          out3 = to_csv (Hits (probe_hits_run it df)) ''Probe_to_Target_Hits.csv'' out2;
          out4 = to_csv (Hits (target_hits_run it df)) ''Target_to_Probe_Hits.csv'' out3
      in to_csv (Names (probes_hitting_all_targets_run it df))
           ''Probes_Hitting_All_Targets.csv'' out4)"

definition process_psl_file_run ::
  "(string list \<Rightarrow> string list) \<Rightarrow> frame \<Rightarrow> outdir \<Rightarrow> outdir \<times> error option" where
  "process_psl_file_run it df out =
     (case astype_int (map blockCount df) of
        Inl e \<Rightarrow> (out, Some e)
      | Inr block_counts \<Rightarrow> (write_reports_run it df out, None))"

subsection \<open>The vocabulary of the specification\<close>

text \<open>
  The specification speaks of the relation of a record sequence, the set of its
  (probe, target) pairs, and of the projections of that relation.
\<close>

definition pairs :: "frame \<Rightarrow> (string \<times> string) set" where
  "pairs df = (\<lambda>r. (qName r, tName r)) ` set df"

definition targets_of :: "frame \<Rightarrow> string \<Rightarrow> string set" where
  "targets_of df p = {t. (p, t) \<in> pairs df}"

definition probes_of :: "frame \<Rightarrow> string \<Rightarrow> string set" where
  "probes_of df t = {p. (p, t) \<in> pairs df}"

definition all_probes :: "frame \<Rightarrow> string set" where
  "all_probes df = fst ` pairs df"

definition all_targets :: "frame \<Rightarrow> string set" where
  "all_targets df = snd ` pairs df"

text \<open>
  The comma-separated entries of a listing, as the specification reads a value of
  \<open>ProbeToTargets\<close> or \<open>TargetToProbes\<close>: the pieces between the occurrences of the
  separator \<^verbatim>\<open>", "\<close>, found from left to right (Python's \<^verbatim>\<open>s.split(", ")\<close>).
  \<open>has_sep\<close> says that a string contains the separator.
\<close>

fun comma_separated_entries :: "string \<Rightarrow> string list" where
  "comma_separated_entries (c # d # cs) =
     (if c = CHR '','' \<and> d = CHR '' '' then [] # comma_separated_entries cs
      else (case comma_separated_entries (d # cs) of
              [] \<Rightarrow> [[c]]
            | e # es \<Rightarrow> (c # e) # es))"
| "comma_separated_entries cs = [cs]"

fun has_sep :: "string \<Rightarrow> bool" where
  "has_sep (c # d # cs) = ((c = CHR '','' \<and> d = CHR '' '') \<or> has_sep (d # cs))"
| "has_sep cs = False"

text \<open>Rows for the examples: only the three consumed columns are given.\<close>

definition row :: "string \<Rightarrow> string \<Rightarrow> string \<Rightarrow> psl_row" where
  "row p t b = \<lparr>qName = p, tName = t, blockCount = b, rest = []\<rparr>"

definition example_1 :: frame where
  "example_1 = [row ''p1'' ''t1'' ''1'', row ''p1'' ''t2'' ''1'', row ''p2'' ''t1'' ''1'']"

definition example_2 :: frame where
  "example_2 = [row ''p1'' ''t1'' ''1'', row ''p1'' ''t1'' ''1'']"

definition example_4 :: frame where
  "example_4 = [row ''p1'' ''t1'' ''1'', row ''p2'' ''t1'' ''NA'']"

text \<open>
  Two frames with the same single pair whose block counts differ, the second one past
  the largest signed 64-bit integer, and a reordering of the first example with other
  block counts, a duplicated pair and another value in an unused column.
\<close>

definition small_count :: frame where
  "small_count = [row ''p'' ''t'' ''1'']"

definition big_count :: frame where
  "big_count = [row ''p'' ''t'' ''9223372036854775808'']"

definition shuffled_1 :: frame where
  "shuffled_1 =
     [\<lparr>qName = ''p2'', tName = ''t1'', blockCount = ''-7'', rest = [''+'']\<rparr>,
      row ''p1'' ''t2'' ''3'',
      row ''p1'' ''t1'' ''12'',
      row ''p2'' ''t1'' ''0'']"

text \<open>One record whose probe identifier contains a comma and a space.\<close>

definition comma_probe :: frame where
  "comma_probe = [row ''a, b'' ''t'' ''1'']"

section \<open>Properties\<close>

subsection \<open>Grouping in terms of the relation\<close>

lemma set_unique: "set (unique xs) = set xs"
  by (simp add: unique_def)

lemma distinct_unique: "distinct (unique xs)"
  by (simp add: unique_def)

lemma nunique_card: "nunique xs = card (set xs)"
  using distinct_card [OF distinct_unique, of xs] by (simp add: nunique_def set_unique)

lemma sort_unique: "sort (unique xs) = sorted_list_of_set (set xs)"
proof (rule sorted_distinct_set_unique)
  show "sorted (sort (unique xs))" by simp
  show "distinct (sort (unique xs))" by (simp add: distinct_unique)
  show "sorted (sorted_list_of_set (set xs))" by simp
  show "distinct (sorted_list_of_set (set xs))" by simp
  show "set (sort (unique xs)) = set (sorted_list_of_set (set xs))" by (simp add: set_unique)
qed

lemma groupby_keys:
  "groupby key col df =
     map (\<lambda>k. (k, map col (filter (\<lambda>r. key r = k) df))) (sorted_list_of_set (key ` set df))"
  by (simp add: groupby_def sort_unique)

lemma group_targets: "set (map tName (filter (\<lambda>r. qName r = p) df)) = targets_of df p"
  by (auto simp: targets_of_def pairs_def)

lemma group_probes: "set (map qName (filter (\<lambda>r. tName r = t) df)) = probes_of df t"
  by (auto simp: probes_of_def pairs_def)

lemma all_probes_eq: "qName ` set df = all_probes df"
  by (force simp: all_probes_def pairs_def)

lemma all_targets_eq: "tName ` set df = all_targets df"
  by (force simp: all_targets_def pairs_def)

lemma finite_all_probes: "finite (all_probes df)"
  by (simp add: all_probes_def pairs_def)

lemma finite_all_targets: "finite (all_targets df)"
  by (simp add: all_targets_def pairs_def)

lemma target_counts_pairs:
  "target_counts df = map (\<lambda>t. (t, card (probes_of df t))) (sorted_list_of_set (all_targets df))"
  by (simp add: target_counts_def groupby_keys nunique_card all_targets_eq o_def
      group_probes [simplified])

lemma probe_counts_pairs:
  "probe_counts df = map (\<lambda>p. (p, card (targets_of df p))) (sorted_list_of_set (all_probes df))"
  by (simp add: probe_counts_def groupby_keys nunique_card all_probes_eq o_def
      group_targets [simplified])

lemma probe_hits_pairs:
  "probe_hits df =
     map (\<lambda>p. (p, join '', '' (sorted_list_of_set (targets_of df p))))
       (sorted_list_of_set (all_probes df))"
  by (simp add: probe_hits_def groupby_keys all_probes_eq o_def group_targets [simplified])

lemma target_hits_pairs:
  "target_hits df =
     map (\<lambda>t. (t, join '', '' (sorted_list_of_set (probes_of df t))))
       (sorted_list_of_set (all_targets df))"
  by (simp add: target_hits_def groupby_keys all_targets_eq o_def group_probes [simplified])

lemma probes_hitting_all_targets_pairs:
  "probes_hitting_all_targets df =
     filter (\<lambda>p. targets_of df p = all_targets df) (sorted_list_of_set (all_probes df))"
  by (simp add: probes_hitting_all_targets_def groupby_keys all_probes_eq all_targets_eq
      set_unique o_def filter_map group_targets [simplified] Let_def)

lemma keys_sorted: "sorted (map fst (map (\<lambda>k. (k, f k)) (sorted_list_of_set A)))"
  by (simp add: o_def)

lemma keys_distinct: "distinct (map fst (map (\<lambda>k. (k, f k)) (sorted_list_of_set A)))"
  by (simp add: o_def)

subsection \<open>The empty frame\<close>

text \<open>
  Claim C3. On the empty record sequence the function raises nothing, every one of the
  five reports is the empty sequence, and the five files written hold empty tables.
\<close>

theorem empty_input:
  "process_psl_file [] out = (write_reports [] out, None)
   \<and> target_counts [] = [] \<and> probe_counts [] = [] \<and> probe_hits [] = []
   \<and> target_hits [] = [] \<and> probes_hitting_all_targets [] = []
   \<and> write_reports [] out ''Unique_Target_Counts.csv'' = Some (Counts [])
   \<and> write_reports [] out ''Unique_Probe_Counts.csv'' = Some (Counts [])
   \<and> write_reports [] out ''Probe_to_Target_Hits.csv'' = Some (Hits [])
   \<and> write_reports [] out ''Target_to_Probe_Hits.csv'' = Some (Hits [])
   \<and> write_reports [] out ''Probes_Hitting_All_Targets.csv'' = Some (Names [])"
proof -
  have g: "groupby key col [] = []" for key col
    by (simp add: groupby_def unique_def)
  have r: "target_counts [] = []" "probe_counts [] = []" "probe_hits [] = []"
    "target_hits [] = []" "probes_hitting_all_targets [] = []"
    by (simp_all add: target_counts_def probe_counts_def probe_hits_def target_hits_def
        probes_hitting_all_targets_def g)
  have p: "process_psl_file [] out = (write_reports [] out, None)"
    by (simp add: process_psl_file_def)
  have w: "write_reports [] out ''Unique_Target_Counts.csv'' = Some (Counts [])"
    "write_reports [] out ''Unique_Probe_Counts.csv'' = Some (Counts [])"
    "write_reports [] out ''Probe_to_Target_Hits.csv'' = Some (Hits [])"
    "write_reports [] out ''Target_to_Probe_Hits.csv'' = Some (Hits [])"
    "write_reports [] out ''Probes_Hitting_All_Targets.csv'' = Some (Names [])"
    by (simp_all add: write_reports_def to_csv_def r)
  from p r w show ?thesis by simp
qed

subsection \<open>Counts\<close>

text \<open>
  Claim C5. \<open>TargetCounts\<close> gives each observed target the number of distinct probes
  aligned to it, \<open>ProbeCounts\<close> gives each observed probe the number of distinct
  targets it is aligned to, and the rows of both come in strictly ascending order of
  their keys.
\<close>

theorem counts_by_cardinality:
  "target_counts df =
     map (\<lambda>t. (t, card (probes_of df t))) (sorted_list_of_set (all_targets df))
   \<and> probe_counts df =
     map (\<lambda>p. (p, card (targets_of df p))) (sorted_list_of_set (all_probes df))
   \<and> sorted (map fst (target_counts df)) \<and> distinct (map fst (target_counts df))
   \<and> sorted (map fst (probe_counts df)) \<and> distinct (map fst (probe_counts df))"
  using keys_sorted [of "\<lambda>t. card (probes_of df t)" "all_targets df"]
    keys_distinct [of "\<lambda>t. card (probes_of df t)" "all_targets df"]
    keys_sorted [of "\<lambda>p. card (targets_of df p)" "all_probes df"]
    keys_distinct [of "\<lambda>p. card (targets_of df p)" "all_probes df"]
  by (simp only: target_counts_pairs probe_counts_pairs simp_thms)

subsection \<open>Listings\<close>

text \<open>
  Claim C4. In \<open>ProbeToTargets\<close> the value of a probe is its distinct targets, sorted
  and joined with a comma and a space; \<open>TargetToProbes\<close> is the same with the roles
  exchanged; the rows of both come in strictly ascending order of their keys.
\<close>

theorem hits_sorted_joined:
  "probe_hits df =
     map (\<lambda>p. (p, join '', '' (sorted_list_of_set (targets_of df p))))
       (sorted_list_of_set (all_probes df))
   \<and> target_hits df =
     map (\<lambda>t. (t, join '', '' (sorted_list_of_set (probes_of df t))))
       (sorted_list_of_set (all_targets df))
   \<and> sorted (map fst (probe_hits df)) \<and> distinct (map fst (probe_hits df))
   \<and> sorted (map fst (target_hits df)) \<and> distinct (map fst (target_hits df))"
  using keys_sorted [of "\<lambda>p. join '', '' (sorted_list_of_set (targets_of df p))" "all_probes df"]
    keys_distinct [of "\<lambda>p. join '', '' (sorted_list_of_set (targets_of df p))" "all_probes df"]
    keys_sorted [of "\<lambda>t. join '', '' (sorted_list_of_set (probes_of df t))" "all_targets df"]
    keys_distinct [of "\<lambda>t. join '', '' (sorted_list_of_set (probes_of df t))" "all_targets df"]
  by (simp only: probe_hits_pairs target_hits_pairs simp_thms)

subsection \<open>Universal probes\<close>

lemma universal_nonempty:
  assumes "df \<noteq> []" and "targets_of df p = all_targets df"
  shows "p \<in> all_probes df"
proof -
  from assms(1) obtain r where "r \<in> set df" by (cases df) auto
  then have "tName r \<in> all_targets df" by (force simp: all_targets_def pairs_def)
  with assms(2) have "tName r \<in> targets_of df p" by simp
  then have "(p, tName r) \<in> pairs df" by (simp add: targets_of_def)
  then show ?thesis by (force simp: all_probes_def)
qed

text \<open>
  Claim C1. On a non-empty record sequence a probe is in \<open>UniversalProbes\<close> exactly
  when the set of its targets equals the set of all targets of the input, and the report
  is in strictly ascending order.
\<close>

theorem universal_probes_exact:
  assumes "df \<noteq> []"
  shows "(p \<in> set (probes_hitting_all_targets df) \<longleftrightarrow> targets_of df p = all_targets df)
    \<and> sorted (probes_hitting_all_targets df) \<and> distinct (probes_hitting_all_targets df)"
proof -
  have "p \<in> set (probes_hitting_all_targets df) \<longleftrightarrow>
      p \<in> all_probes df \<and> targets_of df p = all_targets df"
    by (simp add: probes_hitting_all_targets_pairs finite_all_probes)
  with universal_nonempty [OF assms] have m:
    "p \<in> set (probes_hitting_all_targets df) \<longleftrightarrow> targets_of df p = all_targets df"
    by blast
  have s: "sorted (probes_hitting_all_targets df)"
    by (simp add: probes_hitting_all_targets_pairs sorted_wrt_filter)
  have d: "distinct (probes_hitting_all_targets df)"
    by (simp add: probes_hitting_all_targets_pairs)
  from m s d show ?thesis by simp
qed

theorem universal_probes_exact_witness:
  "example_1 \<noteq> []
   \<and> probes_hitting_all_targets example_1 = [''p1'']
   \<and> targets_of example_1 ''p1'' = all_targets example_1
   \<and> targets_of example_1 ''p2'' \<noteq> all_targets example_1"
proof -
  have h: "example_1 \<noteq> []"
    by (simp add: example_1_def)
  have e: "probes_hitting_all_targets example_1 = [''p1'']"
    by (simp add: probes_hitting_all_targets_def example_1_def row_def groupby_def unique_def
        insert_commute)
  from universal_probes_exact [OF h, of "''p1''"] e
  have a: "targets_of example_1 ''p1'' = all_targets example_1" by simp
  from universal_probes_exact [OF h, of "''p2''"] e
  have b: "targets_of example_1 ''p2'' \<noteq> all_targets example_1" by simp
  from h e a b show ?thesis by simp
qed

subsection \<open>The conversion of the block counts\<close>

lemma astype_int_Inr:
  "astype_int ss = Inr ns \<Longrightarrow> s \<in> set ss \<Longrightarrow> \<exists>n. py_int s = Some n \<and> in_int64 n"
  by (induction ss arbitrary: ns) (auto split: option.splits if_splits sum.splits)

lemma astype_int_total:
  "\<forall>s\<in>set ss. \<exists>n. py_int s = Some n \<and> in_int64 n \<Longrightarrow> \<exists>ns. astype_int ss = Inr ns"
  by (induction ss) (auto split: option.splits sum.splits)

text \<open>
  Claim C2. When the \<open>blockCount\<close> cell of some record is not an integer literal, the
  function ends with an error and the output directory is what it was before the call:
  none of the five reports has been written, and the record has not been skipped.
\<close>

theorem unparseable_block_count:
  assumes "r \<in> set df" and "py_int (blockCount r) = None"
  shows "\<exists>e. process_psl_file df out = (out, Some e)"
proof (cases "astype_int (map blockCount df)")
  case (Inl e)
  then show ?thesis by (simp add: process_psl_file_def)
next
  case (Inr ns)
  from assms(1) have "blockCount r \<in> set (map blockCount df)" by simp
  from astype_int_Inr [OF Inr this] assms(2) show ?thesis by simp
qed

lemma py_int_NA: "py_int ''NA'' = None"
  by (simp add: py_int_def strip_space_def is_space_def unsigned_def is_digit_def)

lemma py_int_1: "py_int ''1'' = Some 1"
  by (simp add: py_int_def strip_space_def is_space_def unsigned_def is_digit_def digit_val_def)

theorem unparseable_block_count_witness:
  "row ''p2'' ''t1'' ''NA'' \<in> set example_4
   \<and> py_int (blockCount (row ''p2'' ''t1'' ''NA'')) = None
   \<and> (\<exists>e. process_psl_file example_4 Map.empty = (Map.empty, Some e))
   \<and> process_psl_file example_4 Map.empty = (Map.empty, Some ValueError)"
proof -
  have m: "row ''p2'' ''t1'' ''NA'' \<in> set example_4"
    by (simp add: example_4_def)
  have n: "py_int (blockCount (row ''p2'' ''t1'' ''NA'')) = None"
    by (simp add: row_def py_int_NA)
  have v: "process_psl_file example_4 Map.empty = (Map.empty, Some ValueError)"
    by (simp add: process_psl_file_def example_4_def row_def py_int_NA py_int_1 in_int64_def)
  from m n v unparseable_block_count [OF m n, of Map.empty] show ?thesis by simp
qed

subsection \<open>Duplicate pairs\<close>

lemma projections_pairs:
  assumes "pairs df' = pairs df"
  shows "targets_of df' = targets_of df" "probes_of df' = probes_of df"
    "all_probes df' = all_probes df" "all_targets df' = all_targets df"
  using assms by (simp_all add: targets_of_def probes_of_def all_probes_def all_targets_def fun_eq_iff)

lemma reports_pairs:
  assumes "pairs df' = pairs df"
  shows "target_counts df' = target_counts df" "probe_counts df' = probe_counts df"
    "probe_hits df' = probe_hits df" "target_hits df' = target_hits df"
    "probes_hitting_all_targets df' = probes_hitting_all_targets df"
proof -
  note p = projections_pairs [OF assms]
  show "target_counts df' = target_counts df"
    unfolding target_counts_pairs p ..
  show "probe_counts df' = probe_counts df"
    unfolding probe_counts_pairs p ..
  show "probe_hits df' = probe_hits df"
    unfolding probe_hits_pairs p ..
  show "target_hits df' = target_hits df"
    unfolding target_hits_pairs p ..
  show "probes_hitting_all_targets df' = probes_hitting_all_targets df"
    unfolding probes_hitting_all_targets_pairs p ..
qed

lemma write_reports_pairs:
  assumes "pairs df' = pairs df"
  shows "write_reports df' out = write_reports df out"
  unfolding write_reports_def reports_pairs [OF assms] ..

text \<open>
  Claim C6. Two record sequences with the same set of (probe, target) pairs have the same
  five reports, so a pair that occurs several times counts once: the reports of a
  sequence are those of the sequence without its duplicates.
\<close>

theorem duplicate_pairs_once:
  assumes "pairs df' = pairs df"
  shows "target_counts df' = target_counts df \<and> probe_counts df' = probe_counts df
    \<and> probe_hits df' = probe_hits df \<and> target_hits df' = target_hits df
    \<and> probes_hitting_all_targets df' = probes_hitting_all_targets df
    \<and> write_reports df' out = write_reports df out"
  using reports_pairs [OF assms] write_reports_pairs [OF assms, of out] by simp

theorem duplicate_pairs_once_witness:
  "pairs [row ''p1'' ''t1'' ''1''] = pairs example_2
   \<and> target_counts example_2 = [(''t1'', 1)]
   \<and> target_counts [row ''p1'' ''t1'' ''1''] = target_counts example_2
   \<and> probe_hits [row ''p1'' ''t1'' ''1''] = probe_hits example_2
   \<and> probes_hitting_all_targets [row ''p1'' ''t1'' ''1''] = probes_hitting_all_targets example_2"
proof -
  have h: "pairs [row ''p1'' ''t1'' ''1''] = pairs example_2"
    by (simp add: pairs_def example_2_def)
  have c: "target_counts example_2 = [(''t1'', 1)]"
    by (simp add: target_counts_def example_2_def row_def groupby_def unique_def nunique_def)
  from h c duplicate_pairs_once [OF h, of Map.empty] show ?thesis by simp
qed

subsection \<open>Dependence on the block counts\<close>

lemma py_int_big: "py_int ''9223372036854775808'' = Some 9223372036854775808"
  by (simp add: py_int_def strip_space_def is_space_def unsigned_def is_digit_def digit_val_def)

text \<open>
  Claim C10 as stated fails: a block count can be an integer literal and still stop the
  run, because the column is converted to signed 64-bit integers. The two frames below
  have integer block counts and the same pairs; the first run writes its reports, the
  second raises \<^verbatim>\<open>OverflowError\<close> and writes nothing.
\<close>

theorem block_count_overflow_counterexample:
  "py_int (blockCount (row ''p'' ''t'' ''1'')) = Some 1
   \<and> py_int (blockCount (row ''p'' ''t'' ''9223372036854775808'')) = Some 9223372036854775808
   \<and> pairs small_count = pairs big_count
   \<and> process_psl_file small_count Map.empty = (write_reports small_count Map.empty, None)
   \<and> write_reports small_count Map.empty ''Unique_Target_Counts.csv'' = Some (Counts [(''t'', 1)])
   \<and> process_psl_file big_count Map.empty = (Map.empty, Some OverflowError)"
proof -
  have a: "py_int (blockCount (row ''p'' ''t'' ''1'')) = Some 1"
    by (simp add: row_def py_int_1)
  have b: "py_int (blockCount (row ''p'' ''t'' ''9223372036854775808'')) = Some 9223372036854775808"
    by (simp add: row_def py_int_big)
  have c: "pairs small_count = pairs big_count"
    by (simp add: pairs_def small_count_def big_count_def row_def)
  have d: "process_psl_file small_count Map.empty = (write_reports small_count Map.empty, None)"
    by (simp add: process_psl_file_def small_count_def row_def py_int_1 in_int64_def)
  have t: "target_counts small_count = [(''t'', 1)]"
    by (simp add: target_counts_def small_count_def row_def groupby_def unique_def nunique_def)
  have e: "write_reports small_count Map.empty ''Unique_Target_Counts.csv'' = Some (Counts [(''t'', 1)])"
    by (simp add: write_reports_def to_csv_def t)
  have f: "process_psl_file big_count Map.empty = (Map.empty, Some OverflowError)"
    by (simp add: process_psl_file_def big_count_def row_def py_int_big in_int64_def)
  from a b c d e f show ?thesis by simp
qed

text \<open>
  Claim C10, amended. For two record sequences whose block counts are all integer
  literals within the signed 64-bit range and which have the same set of
  (probe, target) pairs, both runs succeed and write the same five reports; the order of
  the records, the values of the block counts within that range (negative ones too) and
  the unused columns play no part.
\<close>

theorem reports_factor_through_pairs:
  assumes "\<forall>r\<in>set df. \<exists>n. py_int (blockCount r) = Some n \<and> in_int64 n"
    and "\<forall>r\<in>set df'. \<exists>n. py_int (blockCount r) = Some n \<and> in_int64 n"
    and "pairs df' = pairs df"
  shows "process_psl_file df' out = process_psl_file df out
    \<and> process_psl_file df out = (write_reports df out, None)"
proof -
  from assms(1) have "\<forall>s\<in>set (map blockCount df). \<exists>n. py_int s = Some n \<and> in_int64 n"
    by simp
  from astype_int_total [OF this] have a: "process_psl_file df out = (write_reports df out, None)"
    by (auto simp: process_psl_file_def)
  from assms(2) have "\<forall>s\<in>set (map blockCount df'). \<exists>n. py_int s = Some n \<and> in_int64 n"
    by simp
  from astype_int_total [OF this] have b: "process_psl_file df' out = (write_reports df' out, None)"
    by (auto simp: process_psl_file_def)
  from a b write_reports_pairs [OF assms(3), of out] show ?thesis by simp
qed

lemma py_int_examples:
  "py_int ''-7'' = Some (- 7)" "py_int ''3'' = Some 3" "py_int ''12'' = Some 12"
  "py_int ''0'' = Some 0"
  by (simp_all add: py_int_def strip_space_def is_space_def unsigned_def is_digit_def
      digit_val_def)

theorem reports_factor_through_pairs_witness:
  "list_all (\<lambda>r. \<exists>n. py_int (blockCount r) = Some n \<and> in_int64 n) example_1
   \<and> list_all (\<lambda>r. \<exists>n. py_int (blockCount r) = Some n \<and> in_int64 n) shuffled_1
   \<and> pairs shuffled_1 = pairs example_1
   \<and> process_psl_file shuffled_1 Map.empty = process_psl_file example_1 Map.empty
   \<and> process_psl_file example_1 Map.empty = (write_reports example_1 Map.empty, None)"
proof -
  have a: "\<forall>r\<in>set example_1. \<exists>n. py_int (blockCount r) = Some n \<and> in_int64 n"
    by (simp add: example_1_def row_def py_int_1 in_int64_def)
  have b: "\<forall>r\<in>set shuffled_1. \<exists>n. py_int (blockCount r) = Some n \<and> in_int64 n"
    by (simp add: shuffled_1_def row_def py_int_examples in_int64_def)
  have c: "pairs shuffled_1 = pairs example_1"
    by (auto simp: pairs_def shuffled_1_def example_1_def row_def)
  from a b c reports_factor_through_pairs [OF a b c, of Map.empty] show ?thesis
    by (simp add: list_all_iff)
qed

subsection \<open>Independence of the iteration order of sets\<close>

lemma sort_iteration_order:
  assumes "iteration_order it"
  shows "sort (it x) = sorted_list_of_set (set x)"
proof (rule sorted_distinct_set_unique)
  from assms have s: "set (it x) = set x" and d: "distinct (it x)"
    by (simp_all add: iteration_order_def)
  show "sorted (sort (it x))" by simp
  show "distinct (sort (it x))" using d by simp
  show "sorted (sorted_list_of_set (set x))" by simp
  show "distinct (sorted_list_of_set (set x))" by simp
  show "set (sort (it x)) = set (sorted_list_of_set (set x))" using s by simp
qed

lemma set_iteration_order: "iteration_order it \<Longrightarrow> set (it x) = set x"
  by (simp add: iteration_order_def)

lemma probe_hits_run_eq: "iteration_order it \<Longrightarrow> probe_hits_run it df = probe_hits df"
  by (simp add: probe_hits_run_def probe_hits_def sort_iteration_order)

lemma target_hits_run_eq: "iteration_order it \<Longrightarrow> target_hits_run it df = target_hits df"
  by (simp add: target_hits_run_def target_hits_def sort_iteration_order)

lemma probes_hitting_all_targets_run_eq:
  "iteration_order it \<Longrightarrow> probes_hitting_all_targets_run it df = probes_hitting_all_targets df"
  by (simp add: probes_hitting_all_targets_run_def probes_hitting_all_targets_def
      set_iteration_order Let_def filter_map o_def split_def)

lemma write_reports_run_eq:
  assumes "iteration_order it"
  shows "write_reports_run it df out = write_reports df out"
  by (simp add: write_reports_run_def write_reports_def probe_hits_run_eq [OF assms]
      target_hits_run_eq [OF assms] probes_hitting_all_targets_run_eq [OF assms])

lemma process_psl_file_run_eq:
  assumes "iteration_order it"
  shows "process_psl_file_run it df out = process_psl_file df out"
  by (simp add: process_psl_file_run_def process_psl_file_def write_reports_run_eq [OF assms]
      split: sum.split)

text \<open>
  Claim C9. Two runs on the same record sequence give the same result, rows and order
  included: whatever order each run iterates its sets in, the outcome (the error, or the
  five files written) is the same, and it is the one computed with order-free sets.
\<close>

theorem runs_agree:
  assumes "iteration_order it" and "iteration_order it'"
  shows "process_psl_file_run it df out = process_psl_file_run it' df out
    \<and> process_psl_file_run it df out = process_psl_file df out"
  using process_psl_file_run_eq [OF assms(1), of df out]
    process_psl_file_run_eq [OF assms(2), of df out] by simp

lemma iteration_order_remdups: "iteration_order remdups"
  by (simp add: iteration_order_def)

lemma iteration_order_unique: "iteration_order unique"
  by (simp add: iteration_order_def set_unique distinct_unique)

theorem runs_agree_witness:
  "iteration_order remdups \<and> iteration_order unique
   \<and> remdups [''t1'', ''t2'', ''t1''] = [''t2'', ''t1'']
   \<and> unique [''t1'', ''t2'', ''t1''] = [''t1'', ''t2'']
   \<and> process_psl_file_run remdups shuffled_1 Map.empty
       = process_psl_file_run unique shuffled_1 Map.empty"
proof -
  have a: "remdups [''t1'', ''t2'', ''t1''] = [''t2'', ''t1'']" by simp
  have b: "unique [''t1'', ''t2'', ''t1''] = [''t1'', ''t2'']" by (simp add: unique_def)
  from a b iteration_order_remdups iteration_order_unique
    runs_agree [OF iteration_order_remdups iteration_order_unique, of shuffled_1 Map.empty]
  show ?thesis by simp
qed

subsection \<open>Listings read back as comma-separated entries\<close>

lemma entries_no_sep: "\<not> has_sep x \<Longrightarrow> comma_separated_entries x = [x]"
  by (induction x rule: has_sep.induct) auto

lemma entries_append:
  "\<not> has_sep x \<Longrightarrow> comma_separated_entries (x @ '', '' @ ys) = x # comma_separated_entries ys"
  by (induction x rule: has_sep.induct) auto

lemma entries_join:
  "xs \<noteq> [] \<Longrightarrow> \<forall>x\<in>set xs. \<not> has_sep x \<Longrightarrow> comma_separated_entries (join '', '' xs) = xs"
proof (induction "'', ''" xs rule: join.induct)
  case 1
  then show ?case by simp
next
  case (2 x)
  then show ?case by (simp add: entries_no_sep)
next
  case (3 x y ys)
  then show ?case using entries_append [of x "join '', '' (y # ys)"] by simp
qed

lemma finite_probes_of: "finite (probes_of df t)"
proof (rule finite_subset)
  show "probes_of df t \<subseteq> all_probes df" by (force simp: probes_of_def all_probes_def)
  show "finite (all_probes df)" by (rule finite_all_probes)
qed

lemma finite_targets_of: "finite (targets_of df p)"
proof (rule finite_subset)
  show "targets_of df p \<subseteq> all_targets df" by (force simp: targets_of_def all_targets_def)
  show "finite (all_targets df)" by (rule finite_all_targets)
qed

lemma probes_of_nonempty: "t \<in> all_targets df \<Longrightarrow> probes_of df t \<noteq> {}"
  by (auto simp: all_targets_def probes_of_def)

lemma targets_of_nonempty: "p \<in> all_probes df \<Longrightarrow> targets_of df p \<noteq> {}"
  by (auto simp: all_probes_def targets_of_def)

lemma map_of_target_hits:
  "map_of (target_hits df) t =
     (if t \<in> all_targets df then Some (join '', '' (sorted_list_of_set (probes_of df t)))
      else None)"
  by (simp add: target_hits_pairs map_of_map_restrict restrict_map_def finite_all_targets)

lemma map_of_probe_hits:
  "map_of (probe_hits df) p =
     (if p \<in> all_probes df then Some (join '', '' (sorted_list_of_set (targets_of df p)))
      else None)"
  by (simp add: probe_hits_pairs map_of_map_restrict restrict_map_def finite_all_probes)

lemma map_of_target_counts:
  "map_of (target_counts df) t =
     (if t \<in> all_targets df then Some (card (probes_of df t)) else None)"
  by (simp add: target_counts_pairs map_of_map_restrict restrict_map_def finite_all_targets)

lemma map_of_probe_counts:
  "map_of (probe_counts df) p =
     (if p \<in> all_probes df then Some (card (targets_of df p)) else None)"
  by (simp add: probe_counts_pairs map_of_map_restrict restrict_map_def finite_all_probes)

lemma entries_probes_of:
  assumes "\<forall>r\<in>set df. \<not> has_sep (qName r)" and "t \<in> all_targets df"
  shows "comma_separated_entries (join '', '' (sorted_list_of_set (probes_of df t)))
    = sorted_list_of_set (probes_of df t)"
proof (rule entries_join)
  from probes_of_nonempty [OF assms(2)] show "sorted_list_of_set (probes_of df t) \<noteq> []"
    by (simp add: sorted_list_of_set_eq_Nil_iff finite_probes_of)
  have "set (sorted_list_of_set (probes_of df t)) = probes_of df t"
    by (simp add: finite_probes_of)
  with assms(1) show "\<forall>x\<in>set (sorted_list_of_set (probes_of df t)). \<not> has_sep x"
    by (auto simp: probes_of_def pairs_def)
qed

lemma entries_targets_of:
  assumes "\<forall>r\<in>set df. \<not> has_sep (tName r)" and "p \<in> all_probes df"
  shows "comma_separated_entries (join '', '' (sorted_list_of_set (targets_of df p)))
    = sorted_list_of_set (targets_of df p)"
proof (rule entries_join)
  from targets_of_nonempty [OF assms(2)] show "sorted_list_of_set (targets_of df p) \<noteq> []"
    by (simp add: sorted_list_of_set_eq_Nil_iff finite_targets_of)
  have "set (sorted_list_of_set (targets_of df p)) = targets_of df p"
    by (simp add: finite_targets_of)
  with assms(1) show "\<forall>x\<in>set (sorted_list_of_set (targets_of df p)). \<not> has_sep x"
    by (auto simp: targets_of_def pairs_def)
qed

text \<open>
  Claim C7 as stated fails: identifiers are arbitrary text, and one that contains the
  separator is read back as several entries. The probe \<^verbatim>\<open>a, b\<close> is one probe of the
  target \<^verbatim>\<open>t\<close>, and the listing of \<^verbatim>\<open>t\<close> has two comma-separated entries.
\<close>

theorem count_listing_counterexample:
  "''t'' \<in> all_targets comma_probe
   \<and> map_of (target_counts comma_probe) ''t'' = Some 1
   \<and> map_of (target_hits comma_probe) ''t'' = Some ''a, b''
   \<and> length (comma_separated_entries ''a, b'') = 2"
  by (simp add: target_counts_def target_hits_def comma_probe_def row_def groupby_def
      unique_def nunique_def all_targets_def pairs_def)

text \<open>
  Claim C7, amended. When no probe or target identifier of the input contains the
  separator (a comma followed by a space), the count of every target in
  \<open>TargetCounts\<close> is the number of comma-separated entries of its value in
  \<open>TargetToProbes\<close>, and the count of every probe in \<open>ProbeCounts\<close> is the number of
  comma-separated entries of its value in \<open>ProbeToTargets\<close>.
\<close>

theorem count_listing_consistent:
  assumes "\<forall>r\<in>set df. \<not> has_sep (qName r) \<and> \<not> has_sep (tName r)"
  shows "(t \<in> all_targets df \<longrightarrow>
           (\<exists>s. map_of (target_hits df) t = Some s
              \<and> map_of (target_counts df) t = Some (length (comma_separated_entries s))))
    \<and> (p \<in> all_probes df \<longrightarrow>
           (\<exists>s. map_of (probe_hits df) p = Some s
              \<and> map_of (probe_counts df) p = Some (length (comma_separated_entries s))))"
proof -
  from assms have q: "\<forall>r\<in>set df. \<not> has_sep (qName r)"
    and t: "\<forall>r\<in>set df. \<not> has_sep (tName r)" by simp_all
  have a: "map_of (target_counts df) t
      = Some (length (comma_separated_entries (join '', '' (sorted_list_of_set (probes_of df t)))))"
    if "t \<in> all_targets df"
    using that by (simp add: entries_probes_of [OF q that] map_of_target_counts)
  have b: "map_of (probe_counts df) p
      = Some (length (comma_separated_entries (join '', '' (sorted_list_of_set (targets_of df p)))))"
    if "p \<in> all_probes df"
    using that by (simp add: entries_targets_of [OF t that] map_of_probe_counts)
  from a b show ?thesis by (simp add: map_of_target_hits map_of_probe_hits)
qed


theorem count_listing_consistent_witness:
  "list_all (\<lambda>r. \<not> has_sep (qName r) \<and> \<not> has_sep (tName r)) example_1
   \<and> ''t1'' \<in> all_targets example_1 \<and> ''p1'' \<in> all_probes example_1
   \<and> map_of (target_hits example_1) ''t1'' = Some ''p1, p2''
   \<and> map_of (target_counts example_1) ''t1'' = Some (length (comma_separated_entries ''p1, p2''))
   \<and> map_of (probe_hits example_1) ''p1'' = Some ''t1, t2''
   \<and> map_of (probe_counts example_1) ''p1'' = Some (length (comma_separated_entries ''t1, t2''))"
proof -
  have h: "\<forall>r\<in>set example_1. \<not> has_sep (qName r) \<and> \<not> has_sep (tName r)"
    by (simp add: example_1_def row_def)
  have t: "''t1'' \<in> all_targets example_1"
    by (simp add: all_targets_def pairs_def example_1_def row_def)
  have p: "''p1'' \<in> all_probes example_1"
    by (simp add: all_probes_def pairs_def example_1_def row_def)
  have th: "map_of (target_hits example_1) ''t1'' = Some ''p1, p2''"
    by (simp add: target_hits_def example_1_def row_def groupby_def unique_def insert_commute)
  have ph: "map_of (probe_hits example_1) ''p1'' = Some ''t1, t2''"
    by (simp add: probe_hits_def example_1_def row_def groupby_def unique_def insert_commute)
  from count_listing_consistent [OF h, of "''t1''" "''p1''"] t p th ph
  have "map_of (target_counts example_1) ''t1'' = Some (length (comma_separated_entries ''p1, p2''))"
    and "map_of (probe_counts example_1) ''p1'' = Some (length (comma_separated_entries ''t1, t2''))"
    by simp_all
  with h t p th ph show ?thesis by (simp add: list_all_iff)
qed

lemma listed_probe:
  assumes "\<forall>r\<in>set df. \<not> has_sep (qName r)"
  shows "(\<exists>s. map_of (target_hits df) t = Some s \<and> p \<in> set (comma_separated_entries s))
    \<longleftrightarrow> (p, t) \<in> pairs df"
proof (cases "t \<in> all_targets df")
  case True
  have "set (sorted_list_of_set (probes_of df t)) = probes_of df t"
    by (simp add: finite_probes_of)
  with True have "(\<exists>s. map_of (target_hits df) t = Some s \<and> p \<in> set (comma_separated_entries s))
      \<longleftrightarrow> p \<in> probes_of df t"
    by (simp add: map_of_target_hits entries_probes_of [OF assms True])
  then show ?thesis by (simp add: probes_of_def)
next
  case False
  then have "(p, t) \<notin> pairs df" by (force simp: all_targets_def)
  with False show ?thesis by (simp add: map_of_target_hits)
qed

lemma listed_target:
  assumes "\<forall>r\<in>set df. \<not> has_sep (tName r)"
  shows "(\<exists>s. map_of (probe_hits df) p = Some s \<and> t \<in> set (comma_separated_entries s))
    \<longleftrightarrow> (p, t) \<in> pairs df"
proof (cases "p \<in> all_probes df")
  case True
  have "set (sorted_list_of_set (targets_of df p)) = targets_of df p"
    by (simp add: finite_targets_of)
  with True have "(\<exists>s. map_of (probe_hits df) p = Some s \<and> t \<in> set (comma_separated_entries s))
      \<longleftrightarrow> t \<in> targets_of df p"
    by (simp add: map_of_probe_hits entries_targets_of [OF assms True])
  then show ?thesis by (simp add: targets_of_def)
next
  case False
  then have "(p, t) \<notin> pairs df" by (force simp: all_probes_def)
  with False show ?thesis by (simp add: map_of_probe_hits)
qed

text \<open>
  Claim C8 as stated fails for the same reason: the probe \<^verbatim>\<open>a, b\<close> is not among the
  entries of the listing of its target \<^verbatim>\<open>t\<close>, while \<^verbatim>\<open>t\<close> is among the entries of
  the listing of the probe.
\<close>

theorem membership_counterexample:
  "map_of (target_hits comma_probe) ''t'' = Some ''a, b''
   \<and> ''a, b'' \<notin> set (comma_separated_entries ''a, b'')
   \<and> map_of (probe_hits comma_probe) ''a, b'' = Some ''t''
   \<and> ''t'' \<in> set (comma_separated_entries ''t'')"
  by (simp add: target_hits_def probe_hits_def comma_probe_def row_def groupby_def unique_def)

text \<open>
  Claim C8, amended. When no probe or target identifier of the input contains the
  separator, a probe \<open>p\<close> is among the comma-separated entries of the
  \<open>TargetToProbes\<close> value of a target \<open>t\<close> exactly when \<open>t\<close> is among the
  comma-separated entries of the \<open>ProbeToTargets\<close> value of \<open>p\<close>.
\<close>

theorem membership_symmetric:
  assumes "\<forall>r\<in>set df. \<not> has_sep (qName r) \<and> \<not> has_sep (tName r)"
  shows "(\<exists>s. map_of (target_hits df) t = Some s \<and> p \<in> set (comma_separated_entries s))
    \<longleftrightarrow> (\<exists>s. map_of (probe_hits df) p = Some s \<and> t \<in> set (comma_separated_entries s))"
proof -
  from assms have q: "\<forall>r\<in>set df. \<not> has_sep (qName r)"
    and t: "\<forall>r\<in>set df. \<not> has_sep (tName r)" by simp_all
  from listed_probe [OF q, of t p] listed_target [OF t, of p t] show ?thesis by simp
qed

theorem membership_symmetric_witness:
  "list_all (\<lambda>r. \<not> has_sep (qName r) \<and> \<not> has_sep (tName r)) example_1
   \<and> map_of (target_hits example_1) ''t2'' = Some ''p1''
   \<and> ''p1'' \<in> set (comma_separated_entries ''p1'')
   \<and> (\<exists>s. map_of (probe_hits example_1) ''p1'' = Some s
        \<and> ''t2'' \<in> set (comma_separated_entries s))
   \<and> ''p2'' \<notin> set (comma_separated_entries ''p1'')
   \<and> \<not> (\<exists>s. map_of (probe_hits example_1) ''p2'' = Some s
        \<and> ''t2'' \<in> set (comma_separated_entries s))"
proof -
  have h: "\<forall>r\<in>set example_1. \<not> has_sep (qName r) \<and> \<not> has_sep (tName r)"
    by (simp add: example_1_def row_def)
  have th: "map_of (target_hits example_1) ''t2'' = Some ''p1''"
    by (simp add: target_hits_def example_1_def row_def groupby_def unique_def insert_commute)
  have a: "''p1'' \<in> set (comma_separated_entries ''p1'')" by simp
  have b: "''p2'' \<notin> set (comma_separated_entries ''p1'')" by simp
  from membership_symmetric [OF h, of "''t2''" "''p1''"] th a
  have c: "\<exists>s. map_of (probe_hits example_1) ''p1'' = Some s
      \<and> ''t2'' \<in> set (comma_separated_entries s)" by simp
  from membership_symmetric [OF h, of "''t2''" "''p2''"] th b
  have d: "\<not> (\<exists>s. map_of (probe_hits example_1) ''p2'' = Some s
      \<and> ''t2'' \<in> set (comma_separated_entries s))" by simp
  from h th a b c d show ?thesis by (simp add: list_all_iff)
qed

end
